theory Spec2Isabelle
  imports Complex_Main "HOL-Library.Log_Nat"
begin

section \<open>The weather analyzer of \<^verbatim>\<open>weather_analyzer.py\<close>\<close>

text \<open>
  The program is one class, \<^verbatim>\<open>WeatherAnalyzer\<close>, with three fields and four methods.
  The model passes the object explicitly: a method that assigns to \<^verbatim>\<open>self.data\<close>
  returns the updated object next to its result. Exceptions are values of \<open>py_error\<close>.
\<close>

subsection \<open>Data model\<close>

text \<open>
  An instant is a number of microseconds on the time line, the resolution of Python's
  \<^verbatim>\<open>datetime\<close>. \<^verbatim>\<open>datetime.now()\<close> reads the wall clock; the model takes the
  value read as an argument \<open>now\<close>. \<^verbatim>\<open>timedelta(hours=h)\<close> is a signed number of
  microseconds and \<^verbatim>\<open>now + timedelta(...)\<close> is integer addition. The bound of the
  \<^verbatim>\<open>datetime\<close> type at the year 9999 is a limit of the platform that the model leaves
  out, as it leaves out the size of memory.
\<close>

type_synonym instant = int

definition timedelta_hours :: "int \<Rightarrow> int" where
  "timedelta_hours h = h * 3600 * 1000000"

text \<open>
  One dictionary of the list \<^verbatim>\<open>self.data\<close>. The key \<^verbatim>\<open>"datetime"\<close> holds
  \<^verbatim>\<open>time.isoformat()\<close>, the ISO-8601 text of an instant, which \<^verbatim>\<open>visualize_data\<close>
  reads back with \<^verbatim>\<open>pd.to_datetime\<close>; the model keeps the instant that the text
  denotes. The three measurements are Python integers, which are unbounded.
\<close>

record weather_record =
  datetime :: instant
  temperature :: int
  humidity :: int
  wind_speed :: int

record analyzer =
  api_key :: string
  base_url :: string
  data :: "weather_record list"

datatype py_error = ValueError | ZeroDivisionError | OverflowError

subsection \<open>\<^verbatim>\<open>__init__\<close>\<close>

text \<open>
  \<^verbatim>\<open>self.api_key = api_key or "YOUR_API_KEY"\<close>: \<^verbatim>\<open>None\<close> and the empty string are
  both false in Python, so both give the placeholder.
\<close>

definition init :: "string option \<Rightarrow> analyzer" where
  "init key =
     \<lparr> api_key = (case key of None \<Rightarrow> ''YOUR_API_KEY''
                   | Some k \<Rightarrow> if k = [] then ''YOUR_API_KEY'' else k),
       base_url = ''https://api.openweathermap.org/data/2.5/forecast'',
       data = [] \<rparr>"

subsection \<open>\<^verbatim>\<open>_generate_sample_data\<close>\<close>

definition base_temp :: int where
  "base_temp = 20"

definition temp_variation :: "nat \<Rightarrow> int" where
  "temp_variation i = (int i mod 8) - 4"

text \<open>The dictionary appended in iteration \<open>i\<close> of the loop.\<close>

definition sample_record :: "instant \<Rightarrow> nat \<Rightarrow> weather_record" where
  "sample_record now i =
     \<lparr> datetime = now + timedelta_hours (int i * 3),
       temperature = base_temp + temp_variation i + (int i mod 3),
       humidity = 60 + (int i mod 20),
       wind_speed = 5 + (int i mod 10) \<rparr>"

text \<open>
  \<^verbatim>\<open>for i in range(40): data.append({...})\<close>, starting from \<^verbatim>\<open>data = []\<close>: a fold over
  the indices that appends at the end of the accumulated list.
\<close>

definition generate_sample_data :: "instant \<Rightarrow> weather_record list" where
  "generate_sample_data now =
     fold (\<lambda>i acc. acc @ [sample_record now i]) [0..<40] []"

subsection \<open>\<^verbatim>\<open>fetch_weather_forecast\<close>\<close>

text \<open>
  The method builds the dictionary \<^verbatim>\<open>params\<close> from the city and the key, does not use
  it, stores the generated list in \<^verbatim>\<open>self.data\<close> and returns it. The result is the
  returned list and the object after the call.
\<close>

definition fetch_weather_forecast ::
  "analyzer \<Rightarrow> string \<Rightarrow> instant \<Rightarrow> weather_record list \<times> analyzer" where
  "fetch_weather_forecast self city now =
     (let params = [(''q'', city), (''appid'', api_key self), (''units'', ''metric'')];
          d = generate_sample_data now
      in (d, self\<lparr>data := d\<rparr>))"

subsection \<open>True division of integers\<close>

text \<open>
  \<^verbatim>\<open>sum(temps)/len(temps)\<close> divides two Python integers with \<^verbatim>\<open>/\<close>. The result is
  a float, an IEEE 754 double: the double nearest to the exact quotient, a tie going to
  the even significand. A zero divisor raises \<^verbatim>\<open>ZeroDivisionError\<close>, and a quotient
  that rounds beyond the largest double raises \<^verbatim>\<open>OverflowError\<close>. A finite double
  is modelled by its value, a rational number \<open>m * 2 powi p\<close> with \<open>\<bar>m\<bar> \<le> 2 ^ 53\<close> and
  \<open>- 1074 \<le> p\<close>; Python compares an integer with a float by value, which is the order
  of the rationals.
\<close>

definition round_half_even :: "rat \<Rightarrow> int" where
  "round_half_even x =
     (let f = \<lfloor>x\<rfloor>; d = x - of_int f
      in if d < 1 / 2 then f else if 1 / 2 < d then f + 1 else if even f then f else f + 1)"

text \<open>The exponent \<open>e\<close> with \<open>2 powi e \<le> x < 2 powi (e + 1)\<close>, for a positive \<open>x\<close>.\<close>

definition floor_log2 :: "rat \<Rightarrow> int" where
  "floor_log2 x =
     (let (a, b) = quotient_of x; e = bitlen a - bitlen b
      in if 2 powi e \<le> x then e else e - 1)"

text \<open>
  Rounding a positive \<open>x\<close> to 53 significant bits, or to a multiple of the smallest
  subnormal \<open>2 powi (- 1074)\<close> when \<open>x\<close> is below the normal range.
\<close>

definition round_magnitude :: "rat \<Rightarrow> rat" where
  "round_magnitude x =
     (let p = max (floor_log2 x - 52) (- 1074)
      in of_int (round_half_even (x / 2 powi p)) * 2 powi p)"

definition round_to_double :: "rat \<Rightarrow> py_error + rat" where
  "round_to_double x =
     (if x = 0 then Inr 0
      else let y = round_magnitude \<bar>x\<bar>
           in if 2 powi 1024 \<le> y then Inl OverflowError else Inr (sgn x * y))"

definition truediv :: "int \<Rightarrow> int \<Rightarrow> py_error + rat" where
  "truediv a b =
     (if b = 0 then Inl ZeroDivisionError else round_to_double (of_int a / of_int b))"

subsection \<open>\<^verbatim>\<open>analyze_temperature_trends\<close>\<close>

text \<open>
  The builtins as the method uses them, on a list of integers. \<^verbatim>\<open>min\<close> and
  \<^verbatim>\<open>max\<close> raise \<^verbatim>\<open>ValueError\<close> on an empty list; otherwise they walk the list and
  replace the item kept so far by a strictly smaller (larger) one. \<^verbatim>\<open>sum\<close> adds the
  items to 0 from left to right.
\<close>

fun py_min :: "int list \<Rightarrow> py_error + int" where
  "py_min [] = Inl ValueError"
| "py_min (x # xs) = Inr (fold (\<lambda>item best. if item < best then item else best) xs x)"

fun py_max :: "int list \<Rightarrow> py_error + int" where
  "py_max [] = Inl ValueError"
| "py_max (x # xs) = Inr (fold (\<lambda>item best. if item > best then item else best) xs x)"

definition py_sum :: "int list \<Rightarrow> int" where
  "py_sum xs = fold (\<lambda>item acc. acc + item) xs 0"

definition py_len :: "'a list \<Rightarrow> int" where
  "py_len xs = int (length xs)"

text \<open>
  The tuple \<^verbatim>\<open>min(temps), max(temps), sum(temps)/len(temps)\<close> is evaluated from left
  to right, and the first exception ends the call.
\<close>

definition analyze_temperature_trends :: "analyzer \<Rightarrow> py_error + (int \<times> int \<times> rat)" where
  "analyze_temperature_trends self =
     (let temps = map temperature (data self) in
      case py_min temps of Inl e \<Rightarrow> Inl e | Inr lo \<Rightarrow>
      (case py_max temps of Inl e \<Rightarrow> Inl e | Inr hi \<Rightarrow>
       (case truediv (py_sum temps) (py_len temps) of Inl e \<Rightarrow> Inl e | Inr mean \<Rightarrow>
        Inr (lo, hi, mean))))"

subsection \<open>Comparing two forecasts\<close>

text \<open>
  Not a function of the program: the list \<open>rs\<close> with every timestamp moved by \<open>delta\<close>
  microseconds and the measurements unchanged, used to state how two fetches differ.
\<close>

definition shift_timestamps :: "int \<Rightarrow> weather_record list \<Rightarrow> weather_record list" where
  "shift_timestamps delta rs = map (\<lambda>r. r\<lparr>datetime := datetime r + delta\<rparr>) rs"

section \<open>The generator\<close>

lemma fold_append_map:
  "fold (\<lambda>i acc. acc @ [f i]) is acc0 = acc0 @ map f is"
  by (induction "is" arbitrary: acc0) simp_all

lemma generate_sample_data_map:
  "generate_sample_data now = map (sample_record now) [0..<40]"
  unfolding generate_sample_data_def by (simp only: fold_append_map append_Nil)

lemma length_generate_sample_data:
  "length (generate_sample_data now) = 40"
  by (simp only: generate_sample_data_map length_map length_upt diff_zero)

lemma nth_generate_sample_data:
  "i < 40 \<Longrightarrow> generate_sample_data now ! i = sample_record now i"
  by (simp only: generate_sample_data_map nth_map length_upt diff_zero nth_upt add_0)

lemma fetch_result:
  "fst (fetch_weather_forecast self city now) = generate_sample_data now"
  by (simp add: fetch_weather_forecast_def Let_def)

lemma fetch_state:
  "snd (fetch_weather_forecast self city now) = self\<lparr>data := generate_sample_data now\<rparr>"
  by (simp add: fetch_weather_forecast_def Let_def)

text \<open>
  C2: for every index \<open>i\<close> below 40, record \<open>i\<close> of the generated list has temperature
  \<open>20 + ((i mod 8) - 4) + (i mod 3)\<close>, humidity \<open>60 + (i mod 20)\<close> and wind speed
  \<open>5 + (i mod 10)\<close>.
\<close>

theorem C2_generated_fields:
  "i < 40 \<Longrightarrow>
     temperature (generate_sample_data now ! i) = 20 + ((int i mod 8) - 4) + (int i mod 3)
     \<and> humidity (generate_sample_data now ! i) = 60 + (int i mod 20)
     \<and> wind_speed (generate_sample_data now ! i) = 5 + (int i mod 10)"
  by (simp add: nth_generate_sample_data sample_record_def base_temp_def temp_variation_def)

theorem C2_generated_fields_witness:
  "(23::nat) < 40
   \<and> temperature (generate_sample_data 0 ! 23) = 25
   \<and> humidity (generate_sample_data 0 ! 23) = 63
   \<and> wind_speed (generate_sample_data 0 ! 23) = 8"
  using C2_generated_fields [of 23 0] by simp

text \<open>
  C10: every generated record is within the ranges the data model expects: humidity in
  \<open>[60, 79]\<close>, so within \<open>[0, 100]\<close>; wind speed in \<open>[5, 14]\<close>, so not negative;
  temperature in \<open>[16, 25]\<close>.
\<close>

theorem C10_generated_ranges:
  "i < 40 \<Longrightarrow>
     (let r = generate_sample_data now ! i in
        60 \<le> humidity r \<and> humidity r \<le> 79 \<and> 0 \<le> humidity r \<and> humidity r \<le> 100
        \<and> 5 \<le> wind_speed r \<and> wind_speed r \<le> 14 \<and> 0 \<le> wind_speed r
        \<and> 16 \<le> temperature r \<and> temperature r \<le> 25)"
proof -
  assume "i < 40"
  then have r: "generate_sample_data now ! i = sample_record now i"
    by (rule nth_generate_sample_data)
  have h: "int i mod 20 \<le> 19" by presburger
  have w: "int i mod 10 \<le> 9" by presburger
  have t8: "int i mod 8 \<le> 7" by presburger
  have t3: "int i mod 3 \<le> 2" by presburger
  show ?thesis
    unfolding r Let_def sample_record_def base_temp_def temp_variation_def
    using h w t8 t3 by simp
qed

theorem C10_generated_ranges_witness:
  "(0::nat) < 40 \<and> temperature (generate_sample_data 7 ! 0) = 16
   \<and> humidity (generate_sample_data 7 ! 19) = 79
   \<and> wind_speed (generate_sample_data 7 ! 9) = 14"
proof -
  have "16 \<le> temperature (generate_sample_data 7 ! 0)"
    using C10_generated_ranges [of 0 7] by (simp add: Let_def)
  moreover have "temperature (generate_sample_data 7 ! 0) \<le> 16"
    by (simp add: nth_generate_sample_data sample_record_def base_temp_def temp_variation_def)
  moreover have "humidity (generate_sample_data 7 ! 19) = 79"
    by (simp add: nth_generate_sample_data sample_record_def)
  moreover have "wind_speed (generate_sample_data 7 ! 9) = 14"
    by (simp add: nth_generate_sample_data sample_record_def)
  ultimately show ?thesis by simp
qed

section \<open>The forecast source\<close>

lemma datetime_sample_record:
  "datetime (sample_record now i) = now + int i * 10800000000"
  by (simp add: sample_record_def timedelta_hours_def)

lemma map_datetime_generate:
  "map datetime (generate_sample_data now) = map (\<lambda>i. now + int i * 10800000000) [0..<40]"
  by (simp only: generate_sample_data_map map_map o_def datetime_sample_record)

lemma sorted_wrt_map_upt:
  fixes f :: "nat \<Rightarrow> int"
  assumes "\<And>i j. i < j \<Longrightarrow> f i < f j"
  shows "sorted_wrt (<) (map f [m..<n])"
  by (simp add: sorted_wrt_map sorted_wrt_iff_nth_less assms)

text \<open>
  C3: for every city, the fetch returns exactly 40 records; the timestamp of record \<open>i\<close>
  is the clock value read by the fetch plus \<open>i\<close> times three hours, so consecutive
  timestamps are three hours apart and the timestamps are strictly increasing.
\<close>

theorem C3_fetch_forty_spaced:
  "length (fst (fetch_weather_forecast self city now)) = 40
   \<and> map datetime (fst (fetch_weather_forecast self city now))
       = map (\<lambda>i. now + timedelta_hours (3 * int i)) [0..<40]
   \<and> (\<forall>i. Suc i < 40 \<longrightarrow>
         datetime (fst (fetch_weather_forecast self city now) ! Suc i)
         - datetime (fst (fetch_weather_forecast self city now) ! i) = timedelta_hours 3)
   \<and> sorted_wrt (<) (map datetime (fst (fetch_weather_forecast self city now)))"
proof -
  let ?d = "fst (fetch_weather_forecast self city now)"
  have d: "?d = generate_sample_data now" by (rule fetch_result)
  have len: "length ?d = 40"
    unfolding d by (rule length_generate_sample_data)
  have ts: "map datetime ?d = map (\<lambda>i. now + timedelta_hours (3 * int i)) [0..<40]"
    unfolding d by (simp add: map_datetime_generate timedelta_hours_def)
  have gap: "datetime (?d ! Suc i) - datetime (?d ! i) = timedelta_hours 3" if "Suc i < 40" for i
  proof -
    from that have "i < 40" by simp
    with that show ?thesis
      unfolding d
      by (simp add: nth_generate_sample_data datetime_sample_record timedelta_hours_def)
  qed
  have inc: "sorted_wrt (<) (map datetime ?d)"
    unfolding d map_datetime_generate by (rule sorted_wrt_map_upt) simp
  from len ts gap inc show ?thesis by blast
qed

theorem C3_fetch_forty_spaced_witness:
  "length (fst (fetch_weather_forecast (init None) ''London'' 1000)) = 40
   \<and> datetime (fst (fetch_weather_forecast (init None) ''London'' 1000) ! 1)
       - datetime (fst (fetch_weather_forecast (init None) ''London'' 1000) ! 0) = 10800000000"
proof -
  have "Suc 0 < 40" by simp
  with C3_fetch_forty_spaced [of "init None" "''London''" 1000]
  show ?thesis by (simp add: timedelta_hours_def)
qed

text \<open>
  C7: the returned records do not depend on the city or on the configured key: two
  calls that read the same clock value return the same list, whatever the two cities
  and the two keys are.
\<close>

theorem C7_fetch_ignores_city_and_key:
  "fst (fetch_weather_forecast (init key1) city1 now)
     = fst (fetch_weather_forecast (init key2) city2 now)
   \<and> fst (fetch_weather_forecast (self\<lparr>api_key := k1\<rparr>) city1 now)
     = fst (fetch_weather_forecast (self\<lparr>api_key := k2\<rparr>) city2 now)"
  by (simp only: fetch_result)

text \<open>
  C8: the fetch is deterministic up to the clock. Two calls that read the same clock
  value, on the same object one after the other or on two objects, return the same
  list; when the clock values differ, the second list is the first with every timestamp
  moved by the difference of the two clock values and nothing else changed.
\<close>

theorem C8_fetch_deterministic_modulo_clock:
  "fst (fetch_weather_forecast (snd (fetch_weather_forecast self city1 now)) city2 now)
     = fst (fetch_weather_forecast self city1 now)
   \<and> fst (fetch_weather_forecast self2 city2 now) = fst (fetch_weather_forecast self1 city1 now)
   \<and> fst (fetch_weather_forecast (snd (fetch_weather_forecast self city1 now1)) city2 now2)
     = shift_timestamps (now2 - now1) (fst (fetch_weather_forecast self city1 now1))
   \<and> fst (fetch_weather_forecast self2 city2 now2)
     = shift_timestamps (now2 - now1) (fst (fetch_weather_forecast self1 city1 now1))"
proof -
  have "sample_record now2 i = (sample_record now1 i)
          \<lparr>datetime := datetime (sample_record now1 i) + (now2 - now1)\<rparr>" for i
    by (simp add: sample_record_def)
  then have "generate_sample_data now2 = shift_timestamps (now2 - now1) (generate_sample_data now1)"
    unfolding generate_sample_data_map shift_timestamps_def map_map o_def by (rule map_cong [OF refl])
  then show ?thesis by (simp only: fetch_result simp_thms)
qed

section \<open>Rounding to a double\<close>

lemma round_half_even_lower: "of_int j \<le> z \<Longrightarrow> j \<le> round_half_even z"
proof -
  assume "of_int j \<le> z"
  then have "j \<le> \<lfloor>z\<rfloor>" by (simp add: le_floor_iff)
  then show ?thesis by (simp add: round_half_even_def Let_def)
qed

lemma round_half_even_upper: "z \<le> of_int j \<Longrightarrow> round_half_even z \<le> j"
proof (cases "z = of_int j")
  case True
  then show ?thesis by (simp add: round_half_even_def Let_def)
next
  case False
  assume "z \<le> of_int j"
  with False have "z < of_int j" by simp
  then have "\<lfloor>z\<rfloor> < j" by (simp add: floor_less_iff)
  then show ?thesis by (simp add: round_half_even_def Let_def)
qed

lemma floor_log2_le:
  assumes "0 < x"
  shows "2 powi (floor_log2 x) \<le> x"
proof -
  obtain a b where q: "quotient_of x = (a, b)" by (cases "quotient_of x")
  then have b: "0 < b" and x: "x = of_int a / of_int b"
    by (simp_all add: quotient_of_denom_pos quotient_of_div)
  with assms have a: "0 < a" by (simp add: zero_less_divide_iff)
  let ?e = "bitlen a - bitlen b"
  have fl: "floor_log2 x = (if 2 powi ?e \<le> x then ?e else ?e - 1)"
    by (simp add: floor_log2_def q Let_def)
  have "2 powi (?e - 1) \<le> x"
  proof -
    have la: "1 \<le> bitlen a" using a by (simp add: bitlen_alt_def)
    have lb: "0 \<le> bitlen b" by (simp add: bitlen_nonneg)
    from bitlen_bounds [OF a] have "2 ^ nat (bitlen a - 1) \<le> a" by simp
    then have "(of_int (2 ^ nat (bitlen a - 1)) :: rat) \<le> of_int a" by (simp only: of_int_le_iff)
    then have A: "(2::rat) ^ nat (bitlen a - 1) \<le> of_int a" by simp
    from bitlen_bounds [OF b] have "b < 2 ^ nat (bitlen b)" by simp
    then have "(of_int b :: rat) < of_int (2 ^ nat (bitlen b))" by (simp only: of_int_less_iff)
    then have B: "(of_int b :: rat) \<le> 2 ^ nat (bitlen b)" by simp
    have "(2::rat) powi (?e - 1) = 2 powi (bitlen a - 1) / 2 powi (bitlen b)"
      using power_int_diff [of "2::rat" "bitlen a - 1" "bitlen b"] by (simp add: algebra_simps)
    also have "\<dots> = 2 ^ nat (bitlen a - 1) / 2 ^ nat (bitlen b)"
      using la lb by (simp add: power_int_def)
    also have "\<dots> \<le> of_int a / of_int b"
      using A B a b by (intro frac_le) simp_all
    finally show ?thesis by (simp add: x)
  qed
  then show ?thesis by (simp add: fl)
qed

lemma round_magnitude_between:
  assumes "0 < x" and "x \<le> 2 ^ 53"
  shows "(of_int k \<le> x \<longrightarrow> of_int k \<le> round_magnitude x)
         \<and> (x \<le> of_int k \<longrightarrow> round_magnitude x \<le> of_int k)"
proof -
  define p where "p = max (floor_log2 x - 52) (- 1074)"
  have rm: "round_magnitude x = of_int (round_half_even (x / 2 powi p)) * 2 powi p"
    by (simp add: round_magnitude_def p_def Let_def)
  have "2 powi (floor_log2 x) \<le> x" using assms(1) by (rule floor_log2_le)
  with assms(2) have le53: "(2::rat) powi (floor_log2 x) \<le> 2 powi 53" by simp
  have e: "floor_log2 x \<le> 53"
  proof (rule ccontr)
    assume "\<not> floor_log2 x \<le> 53"
    then have "53 < floor_log2 x" by simp
    then have "(2::rat) powi 53 < 2 powi (floor_log2 x)"
      by (intro power_int_strict_increasing) simp_all
    with le53 show False by simp
  qed
  then have "p \<le> 1" by (simp add: p_def)
  then consider "p \<le> 0" | "p = 1" by linarith
  then show ?thesis
  proof cases
    case 1
    define N :: int where "N = 2 ^ nat (- p)"
    have N: "0 < N" by (simp add: N_def)
    have pw: "(2::rat) powi p = 1 / of_int N"
      using 1 by (simp add: power_int_def N_def inverse_eq_divide power_one_over)
    have y: "round_magnitude x = of_int (round_half_even (x * of_int N)) / of_int N"
      by (simp add: rm pw)
    show ?thesis
    proof (intro conjI impI)
      assume "of_int k \<le> x"
      then have "of_int (k * N) \<le> x * of_int N" using N by simp
      then have "k * N \<le> round_half_even (x * of_int N)" by (rule round_half_even_lower)
      then have "(of_int (k * N) :: rat) \<le> of_int (round_half_even (x * of_int N))"
        by (simp only: of_int_le_iff)
      then show "of_int k \<le> round_magnitude x"
        using N by (simp add: y pos_le_divide_eq)
    next
      assume "x \<le> of_int k"
      then have "x * of_int N \<le> of_int (k * N)" using N by simp
      then have "round_half_even (x * of_int N) \<le> k * N" by (rule round_half_even_upper)
      then have "(of_int (round_half_even (x * of_int N)) :: rat) \<le> of_int (k * N)"
        by (simp only: of_int_le_iff)
      then show "round_magnitude x \<le> of_int k"
        using N by (simp add: y pos_divide_le_eq)
    qed
  next
    case 2
    then have "floor_log2 x = 53" using e by (simp add: p_def)
    with \<open>2 powi (floor_log2 x) \<le> x\<close> assms(2) have x: "x = 2 ^ 53" by simp
    have "x / 2 powi p = of_int (2 ^ 52)" by (simp add: x 2)
    then have rhe: "round_half_even (x / 2 powi p) = 2 ^ 52"
      using round_half_even_lower [of "2 ^ 52" "x / 2 powi p"]
            round_half_even_upper [of "x / 2 powi p" "2 ^ 52"] by simp
    have "round_magnitude x = of_int (2 ^ 52) * 2 powi p" unfolding rm rhe ..
    then have "round_magnitude x = x" by (simp add: 2 x)
    then show ?thesis by simp
  qed
qed

lemma round_to_double_between:
  assumes "\<bar>x\<bar> \<le> 2 ^ 53"
  shows "\<exists>y. round_to_double x = Inr y
           \<and> (\<forall>k. (of_int k \<le> x \<longrightarrow> of_int k \<le> y) \<and> (x \<le> of_int k \<longrightarrow> y \<le> of_int k))"
proof (cases "x = 0")
  case True
  then show ?thesis by (simp add: round_to_double_def)
next
  case False
  then have pos: "0 < \<bar>x\<bar>" by simp
  note btw = round_magnitude_between [OF pos assms]
  have "round_magnitude \<bar>x\<bar> \<le> of_int (2 ^ 53)"
    using btw [of "2 ^ 53"] assms by simp
  then have "round_magnitude \<bar>x\<bar> \<le> 2 ^ 53" by simp
  also have "(2::rat) ^ 53 < 2 powi 1024" by (simp add: power_int_def)
  finally have r: "round_to_double x = Inr (sgn x * round_magnitude \<bar>x\<bar>)"
    using False by (simp add: round_to_double_def Let_def)
  show ?thesis
  proof (cases "0 < x")
    case True
    then show ?thesis using btw r by (simp add: sgn_if)
  next
    case neg: False
    with False have x: "x < 0" by simp
    have "(of_int k \<le> x \<longrightarrow> of_int k \<le> - round_magnitude \<bar>x\<bar>)
          \<and> (x \<le> of_int k \<longrightarrow> - round_magnitude \<bar>x\<bar> \<le> of_int k)" for k
      using btw [of "- k"] x by simp linarith
    then show ?thesis using r x by (simp add: sgn_if)
  qed
qed

lemma truediv_between:
  assumes "b \<noteq> 0" and "\<bar>of_int a / of_int b :: rat\<bar> \<le> 2 ^ 53"
  shows "\<exists>y. truediv a b = Inr y
           \<and> (\<forall>k. (of_int k \<le> (of_int a / of_int b :: rat) \<longrightarrow> of_int k \<le> y)
                 \<and> ((of_int a / of_int b :: rat) \<le> of_int k \<longrightarrow> y \<le> of_int k))"
  using round_to_double_between [OF assms(2)] assms(1) by (simp add: truediv_def)

lemma truediv_819_40: "truediv 819 40 = Inr (2881600074075341 / 140737488355328)"
  by code_simp

section \<open>The trend analyzer\<close>

lemma fold_less_Min:
  "fold (\<lambda>item best. if item < best then item else best) xs (x::int) = Min (set (x # xs))"
proof -
  have "(\<lambda>item best. if item < best then item else best) = (min :: int \<Rightarrow> int \<Rightarrow> int)"
    by (auto simp: fun_eq_iff min_def)
  then show ?thesis by (simp only: Min.set_eq_fold)
qed

lemma fold_greater_Max:
  "fold (\<lambda>item best. if item > best then item else best) xs (x::int) = Max (set (x # xs))"
proof -
  have "(\<lambda>item best. if item > best then item else best) = (max :: int \<Rightarrow> int \<Rightarrow> int)"
    by (auto simp: fun_eq_iff max_def)
  then show ?thesis by (simp only: Max.set_eq_fold)
qed

lemma py_min_Min: "xs \<noteq> [] \<Longrightarrow> py_min xs = Inr (Min (set xs))"
  by (cases xs) (simp_all add: fold_less_Min del: fold_simps)

lemma py_max_Max: "xs \<noteq> [] \<Longrightarrow> py_max xs = Inr (Max (set xs))"
  by (cases xs) (simp_all add: fold_greater_Max del: fold_simps)

lemma fold_plus_acc: "fold (\<lambda>item acc. acc + item) xs (a::int) = a + sum_list xs"
  by (induction xs arbitrary: a) simp_all

lemma py_sum_sum_list: "py_sum xs = sum_list xs"
  by (simp add: py_sum_def fold_plus_acc)

lemma sum_list_lower: "\<forall>t\<in>set xs. lo \<le> t \<Longrightarrow> int (length xs) * lo \<le> sum_list xs"
  by (induction xs) (auto simp: algebra_simps)

lemma sum_list_upper: "\<forall>t\<in>set xs. t \<le> hi \<Longrightarrow> sum_list xs \<le> int (length xs) * hi"
  by (induction xs) (auto simp: algebra_simps)

lemma analyze_nonempty:
  assumes "data self \<noteq> []"
  shows "analyze_temperature_trends self =
           (case truediv (sum_list (map temperature (data self))) (int (length (data self))) of
              Inl e \<Rightarrow> Inl e
            | Inr mean \<Rightarrow> Inr (Min (temperature ` set (data self)),
                               Max (temperature ` set (data self)), mean))"
proof -
  from assms have ne: "map temperature (data self) \<noteq> []" by simp
  show ?thesis
    unfolding analyze_temperature_trends_def Let_def py_min_Min [OF ne] py_max_Max [OF ne]
      py_sum_sum_list py_len_def
    by simp
qed

lemma mean_lower:
  fixes xs :: "int list"
  assumes "xs \<noteq> []" and "\<forall>t\<in>set xs. lo \<le> t"
  shows "(of_int lo :: rat) \<le> of_int (sum_list xs) / of_int (int (length xs))"
proof -
  from assms(1) have n: "(0::rat) < of_int (int (length xs))" by simp
  have "(of_int (int (length xs) * lo) :: rat) \<le> of_int (sum_list xs)"
    using sum_list_lower [OF assms(2)] by (simp only: of_int_le_iff)
  then show ?thesis
    using n by (simp add: pos_le_divide_eq mult.commute)
qed

lemma mean_upper:
  fixes xs :: "int list"
  assumes "xs \<noteq> []" and "\<forall>t\<in>set xs. t \<le> hi"
  shows "(of_int (sum_list xs) :: rat) / of_int (int (length xs)) \<le> of_int hi"
proof -
  from assms(1) have n: "(0::rat) < of_int (int (length xs))" by simp
  have "(of_int (sum_list xs) :: rat) \<le> of_int (int (length xs) * hi)"
    using sum_list_upper [OF assms(2)] by (simp only: of_int_le_iff)
  then show ?thesis
    using n by (simp add: pos_divide_le_eq mult.commute)
qed

lemma temperatures_generated:
  "map temperature (generate_sample_data now) =
     [16, 18, 20, 19, 21, 23, 22, 24,
      18, 17, 19, 21, 20, 22, 24, 23,
      17, 19, 18, 20, 22, 21, 23, 25,
      16, 18, 20, 19, 21, 23, 22, 24,
      18, 17, 19, 21, 20, 22, 24, 23]"
  by (simp add: generate_sample_data_map sample_record_def base_temp_def temp_variation_def
        upt_rec [of _ "numeral _"])

lemma analyze_generated:
  assumes "data self = generate_sample_data now"
  shows "analyze_temperature_trends self = Inr (16, 25, 2881600074075341 / 140737488355328)"
proof -
  have t: "map temperature (data self) = map temperature (generate_sample_data now)"
    by (simp only: assms)
  have lo: "py_min (map temperature (data self)) = Inr 16"
    unfolding t temperatures_generated by simp
  have hi: "py_max (map temperature (data self)) = Inr 25"
    unfolding t temperatures_generated by simp
  have su: "py_sum (map temperature (data self)) = 819"
    unfolding t temperatures_generated py_sum_def by simp
  have le: "py_len (map temperature (data self)) = 40"
    unfolding t py_len_def by (simp add: length_generate_sample_data)
  show ?thesis
    unfolding analyze_temperature_trends_def Let_def lo hi su le truediv_819_40 by simp
qed

text \<open>
  C1 (as amended): on the 40 generated records the analyzer returns minimum 16, maximum
  25 and, as mean, the double nearest to the exact average \<open>819 / 40 = 20.475\<close> of the 40
  temperatures, which is within \<open>1 / 2 ^ 49\<close> of it.
\<close>

theorem C1_default_set_trends:
  "analyze_temperature_trends (snd (fetch_weather_forecast self city now))
     = Inr (16, 25, 2881600074075341 / 140737488355328)
   \<and> length (data (snd (fetch_weather_forecast self city now))) = 40
   \<and> sum_list (map temperature (data (snd (fetch_weather_forecast self city now)))) = 819
   \<and> round_to_double (819 / 40) = Inr (2881600074075341 / 140737488355328)
   \<and> \<bar>2881600074075341 / 140737488355328 - 819 / 40 :: rat\<bar> \<le> 1 / 2 ^ 49"
proof -
  let ?s = "snd (fetch_weather_forecast self city now)"
  have d: "data ?s = generate_sample_data now" by (simp add: fetch_state)
  have 1: "analyze_temperature_trends ?s = Inr (16, 25, 2881600074075341 / 140737488355328)"
    using d by (rule analyze_generated)
  have 2: "length (data ?s) = 40" unfolding d by (rule length_generate_sample_data)
  have 3: "sum_list (map temperature (data ?s)) = 819"
    unfolding d temperatures_generated by simp
  have 4: "round_to_double (819 / 40) = Inr (2881600074075341 / 140737488355328)"
    using truediv_819_40 by (simp add: truediv_def)
  have 5: "\<bar>2881600074075341 / 140737488355328 - 819 / 40 :: rat\<bar> \<le> 1 / 2 ^ 49" by simp
  from 1 2 3 4 5 show ?thesis by blast
qed

text \<open>
  C1 as written, with minimum 17, fails: record 0 has temperature 16, and the analyzer
  returns 16. The mean returned is a double, and \<open>819 / 40\<close> is not one.
\<close>

theorem C1_minimum_counterexample:
  "analyze_temperature_trends (snd (fetch_weather_forecast (init None) ''London'' 0))
     = Inr (16, 25, 2881600074075341 / 140737488355328)
   \<and> analyze_temperature_trends (snd (fetch_weather_forecast (init None) ''London'' 0))
     \<noteq> Inr (17, 25, 2881600074075341 / 140737488355328)
   \<and> temperature (fst (fetch_weather_forecast (init None) ''London'' 0) ! 0) = 16
   \<and> (2881600074075341 / 140737488355328 :: rat) \<noteq> 819 / 40"
proof -
  have "data (snd (fetch_weather_forecast (init None) ''London'' 0)) = generate_sample_data 0"
    by (simp add: fetch_state)
  then have "analyze_temperature_trends (snd (fetch_weather_forecast (init None) ''London'' 0))
     = Inr (16, 25, 2881600074075341 / 140737488355328)"
    by (rule analyze_generated)
  moreover have "temperature (fst (fetch_weather_forecast (init None) ''London'' 0) ! 0) = 16"
    by (simp add: fetch_result nth_generate_sample_data sample_record_def base_temp_def
          temp_variation_def)
  ultimately show ?thesis by simp
qed

text \<open>
  C4 (as amended): for every non-empty list of records whose temperatures are integers of
  magnitude at most \<open>2 ^ 53\<close>, the analyzer returns the minimum and the maximum of the
  temperatures and, as mean, the double nearest to the sum divided by the count; the
  mean lies between the minimum and the maximum.
\<close>

theorem C4_min_mean_max:
  assumes "data self \<noteq> []"
    and "\<forall>r\<in>set (data self). \<bar>temperature r\<bar> \<le> 2 ^ 53"
  shows "\<exists>mean.
           analyze_temperature_trends self
             = Inr (Min (temperature ` set (data self)), Max (temperature ` set (data self)), mean)
           \<and> round_to_double (of_int (sum_list (map temperature (data self)))
                               / of_int (int (length (data self)))) = Inr mean
           \<and> of_int (Min (temperature ` set (data self))) \<le> mean
           \<and> mean \<le> of_int (Max (temperature ` set (data self)))"
proof -
  let ?xs = "map temperature (data self)"
  let ?lo = "Min (temperature ` set (data self))"
  let ?hi = "Max (temperature ` set (data self))"
  let ?q = "of_int (sum_list ?xs) / of_int (int (length (data self))) :: rat"
  from assms(1) have ne: "?xs \<noteq> []" by simp
  have fin: "finite (temperature ` set (data self))" by simp
  have nes: "temperature ` set (data self) \<noteq> {}" using assms(1) by simp
  have lo_in: "?lo \<in> temperature ` set (data self)" using fin nes by (rule Min_in)
  have hi_in: "?hi \<in> temperature ` set (data self)" using fin nes by (rule Max_in)
  have lo_b: "- (2 ^ 53) \<le> ?lo" using lo_in assms(2) by fastforce
  have hi_b: "?hi \<le> 2 ^ 53" using hi_in assms(2) by fastforce
  have lo_all: "\<forall>t\<in>set ?xs. ?lo \<le> t" using fin by simp
  have hi_all: "\<forall>t\<in>set ?xs. t \<le> ?hi" using fin by simp
  have q_lo: "of_int ?lo \<le> ?q"
    using mean_lower [OF ne lo_all] by simp
  have q_hi: "?q \<le> of_int ?hi"
    using mean_upper [OF ne hi_all] by simp
  have "(of_int (- (2 ^ 53)) :: rat) \<le> of_int ?lo" using lo_b by (simp only: of_int_le_iff)
  with q_lo have b1: "- (2 ^ 53) \<le> ?q" by simp
  have "(of_int ?hi :: rat) \<le> of_int (2 ^ 53)" using hi_b by (simp only: of_int_le_iff)
  with q_hi have b2: "?q \<le> 2 ^ 53" by simp
  from b1 b2 have q_abs: "\<bar>?q\<bar> \<le> 2 ^ 53" by (simp add: abs_le_iff)
  have n0: "int (length (data self)) \<noteq> 0" using assms(1) by simp
  from truediv_between [OF n0 q_abs] obtain mean where
    td: "truediv (sum_list ?xs) (int (length (data self))) = Inr mean"
    and btw: "\<And>k. (of_int k \<le> ?q \<longrightarrow> of_int k \<le> mean) \<and> (?q \<le> of_int k \<longrightarrow> mean \<le> of_int k)"
    by blast
  have r: "round_to_double ?q = Inr mean" using td n0 by (simp add: truediv_def)
  have a: "analyze_temperature_trends self = Inr (?lo, ?hi, mean)"
    by (simp add: analyze_nonempty [OF assms(1)] td)
  from a r btw [of ?lo] btw [of ?hi] q_lo q_hi show ?thesis by blast
qed

theorem C4_min_mean_max_witness:
  "\<exists>mean. analyze_temperature_trends
            ((init None)\<lparr>data := [\<lparr>datetime = 0, temperature = 18, humidity = 60, wind_speed = 5\<rparr>,
                                  \<lparr>datetime = 10800000000, temperature = 21, humidity = 61,
                                   wind_speed = 6\<rparr>]\<rparr>)
          = Inr (18, 21, mean) \<and> 18 \<le> mean \<and> mean \<le> 21"
  using C4_min_mean_max
    [of "(init None)\<lparr>data := [\<lparr>datetime = 0, temperature = 18, humidity = 60, wind_speed = 5\<rparr>,
                                \<lparr>datetime = 10800000000, temperature = 21, humidity = 61,
                                 wind_speed = 6\<rparr>]\<rparr>"]
  by auto

text \<open>
  C4 as written, for every non-empty list, fails on integers that are not doubles: two
  records of temperature \<open>2 ^ 53 + 1\<close> have the mean \<open>2 ^ 53\<close>, which is below the
  minimum and is not the sum divided by the count.
\<close>

theorem C4_large_temperature_counterexample:
  "analyze_temperature_trends
     ((init None)\<lparr>data := [\<lparr>datetime = 0, temperature = 9007199254740993, humidity = 60,
                            wind_speed = 5\<rparr>,
                           \<lparr>datetime = 10800000000, temperature = 9007199254740993,
                            humidity = 61, wind_speed = 6\<rparr>]\<rparr>)
     = Inr (9007199254740993, 9007199254740993, 9007199254740992)
   \<and> \<not> (of_int 9007199254740993 \<le> (9007199254740992 :: rat))
   \<and> (9007199254740992 :: rat) \<noteq> of_int (9007199254740993 + 9007199254740993) / of_int 2"
proof -
  have "truediv 18014398509481986 2 = Inr 9007199254740992" by code_simp
  then show ?thesis
    by (simp add: analyze_temperature_trends_def py_sum_def py_len_def)
qed

text \<open>
  C5 (as amended): on an empty list of records the analyzer fails with \<^verbatim>\<open>ValueError\<close>,
  which \<^verbatim>\<open>min\<close> raises on the empty list of temperatures before the division is
  evaluated; there is no result for the empty case.
\<close>

theorem C5_empty_raises_value_error:
  "analyze_temperature_trends (self\<lparr>data := []\<rparr>) = Inl ValueError"
  by (simp add: analyze_temperature_trends_def)

text \<open>
  C5 as written, a division by zero, fails: a new analyzer, which holds no records,
  fails with \<^verbatim>\<open>ValueError\<close>.
\<close>

theorem C5_not_zero_division_counterexample:
  "analyze_temperature_trends (init None) = Inl ValueError
   \<and> analyze_temperature_trends (init None) \<noteq> Inl ZeroDivisionError"
  by (simp add: analyze_temperature_trends_def init_def)

text \<open>
  C6 (as amended): for a list of exactly one record whose temperature is an integer of
  magnitude at most \<open>2 ^ 53\<close>, the minimum, the maximum and the mean are all that
  temperature.
\<close>

theorem C6_single_record:
  assumes "data self = [r]" and "\<bar>temperature r\<bar> \<le> 2 ^ 53"
  shows "analyze_temperature_trends self
           = Inr (temperature r, temperature r, of_int (temperature r))"
proof -
  let ?t = "temperature r"
  have "(of_int \<bar>?t\<bar> :: rat) \<le> of_int (2 ^ 53)" using assms(2) by (simp only: of_int_le_iff)
  then have q_abs: "\<bar>of_int ?t / of_int 1 :: rat\<bar> \<le> 2 ^ 53" by simp
  have "(1::int) \<noteq> 0" by simp
  from truediv_between [OF this q_abs] obtain mean where
    td: "truediv ?t 1 = Inr mean"
    and btw: "\<And>k. (of_int k \<le> (of_int ?t / of_int 1 :: rat) \<longrightarrow> of_int k \<le> mean)
                \<and> ((of_int ?t / of_int 1 :: rat) \<le> of_int k \<longrightarrow> mean \<le> of_int k)"
    by blast
  from btw [of ?t] have "mean = of_int ?t" by simp
  with td have "truediv ?t 1 = Inr (of_int ?t)" by simp
  then show ?thesis
    by (simp add: analyze_temperature_trends_def assms(1) py_sum_def py_len_def)
qed

theorem C6_single_record_witness:
  "analyze_temperature_trends
     ((init None)\<lparr>data := [\<lparr>datetime = 0, temperature = - 3, humidity = 60, wind_speed = 5\<rparr>]\<rparr>)
     = Inr (- 3, - 3, - 3)"
  using C6_single_record
    [of "(init None)\<lparr>data := [\<lparr>datetime = 0, temperature = - 3, humidity = 60,
                                 wind_speed = 5\<rparr>]\<rparr>"
        "\<lparr>datetime = 0, temperature = - 3, humidity = 60, wind_speed = 5\<rparr>"]
  by simp

text \<open>
  C6 as written, for every single record, fails on an integer that is not a double: the
  temperature \<open>2 ^ 53 + 1\<close> has the mean \<open>2 ^ 53\<close>.
\<close>

theorem C6_large_temperature_counterexample:
  "analyze_temperature_trends
     ((init None)\<lparr>data := [\<lparr>datetime = 0, temperature = 9007199254740993, humidity = 60,
                            wind_speed = 5\<rparr>]\<rparr>)
     = Inr (9007199254740993, 9007199254740993, 9007199254740992)
   \<and> (9007199254740992 :: rat) \<noteq> of_int 9007199254740993"
proof -
  have "truediv 9007199254740993 1 = Inr 9007199254740992" by code_simp
  then show ?thesis
    by (simp add: analyze_temperature_trends_def py_sum_def py_len_def)
qed

end
